theory Spec2Isabelle
  imports Main
begin

section \<open>Python values\<close>

text \<open>
  A Python \<open>str\<close> is a sequence of Unicode code points, so it is modelled as a list of
  code points and not as a list of bytes. The string literals of the source are ASCII;
  \<open>lit\<close> turns a HOL literal into such a string. The messages that the handlers put
  into their responses are literals of the source and stay HOL strings.
\<close>

type_synonym codepoint = nat
type_synonym str = "codepoint list"

definition lit :: "string \<Rightarrow> str" where
  "lit s = map of_char s"

text \<open>
  The values that reach the functions of this service: \<open>None\<close> (an absent header, an
  unset environment variable), a \<open>str\<close> (a header, a request argument, a path
  segment) and an \<open>int\<close> (the defaults \<open>1\<close> and \<open>10\<close> of the paging arguments).
\<close>

datatype pyval = PyNone | PyStr str | PyInt int

text \<open>
  The character classes of CPython depend on its Unicode database, which is a table of the
  interpreter and not of this repository. Every class is written out for ASCII; above
  ASCII the two table lookups that the service reaches are parameters:
  \<open>todecimal\<close> is \<open>Py_UNICODE_TODECIMAL\<close> (the value of a decimal digit, category Nd)
  and \<open>isalnum\<close> is \<open>Py_UNICODE_ISALNUM\<close>. The interpreter's limit on the number of
  digits that \<open>int\<close> converts (\<open>sys.get_int_max_str_digits()\<close>, \<open>0\<close> for no limit)
  and the process environment are parameters as well.
\<close>

record unicodedata =
  todecimal :: "codepoint \<Rightarrow> nat option"
  isalnum :: "codepoint \<Rightarrow> bool"

record py_env =
  environ :: "string \<rightharpoonup> str"
  unicode :: unicodedata
  int_max_str_digits :: nat

text \<open>A table that classifies no code point above ASCII, for evaluating ASCII examples.\<close>

definition ascii_only :: unicodedata where
  "ascii_only = \<lparr>todecimal = (\<lambda>c. None), isalnum = (\<lambda>c. False)\<rparr>"

definition os_getenv :: "py_env \<Rightarrow> string \<Rightarrow> pyval" where
  "os_getenv env k = (case environ env k of None \<Rightarrow> PyNone | Some v \<Rightarrow> PyStr v)"

subsection \<open>\<open>str(x)\<close>\<close>

function digits_of :: "nat \<Rightarrow> codepoint list" where
  "digits_of n = (if n < 10 then [48 + n] else digits_of (n div 10) @ [48 + n mod 10])"
  by pat_completeness auto
termination
  by (relation "measure id") auto

declare digits_of.simps [simp del]

definition str_of_int :: "int \<Rightarrow> str" where
  "str_of_int i = (if i < 0 then 45 # digits_of (nat (- i)) else digits_of (nat i))"

fun py_str :: "pyval \<Rightarrow> str" where
  "py_str PyNone = lit ''None''"
| "py_str (PyStr s) = s"
| "py_str (PyInt i) = str_of_int i"

subsection \<open>Whitespace and \<open>str.strip()\<close>\<close>

text \<open>
  \<open>Py_UNICODE_ISSPACE\<close>: the characters that \<open>str.strip()\<close> removes and that
  \<open>int\<close> turns into a blank. \<open>Py_ISSPACE\<close> is the C-locale class that the integer
  parser skips.
\<close>

definition unicode_isspace :: "codepoint \<Rightarrow> bool" where
  "unicode_isspace c \<longleftrightarrow>
     (9 \<le> c \<and> c \<le> 13) \<or> (28 \<le> c \<and> c \<le> 32) \<or> c = 133 \<or> c = 160 \<or> c = 5760 \<or>
     (8192 \<le> c \<and> c \<le> 8202) \<or> c = 8232 \<or> c = 8233 \<or> c = 8239 \<or> c = 8287 \<or> c = 12288"

definition ascii_isspace :: "codepoint \<Rightarrow> bool" where
  "ascii_isspace c \<longleftrightarrow> (9 \<le> c \<and> c \<le> 13) \<or> c = 32"

definition strip :: "str \<Rightarrow> str" where
  "strip s = rev (dropWhile unicode_isspace (rev (dropWhile unicode_isspace s)))"

subsection \<open>\<open>int(x)\<close>\<close>

text \<open>
  \<open>int(s)\<close> for a string first maps the string to ASCII
  (\<open>_PyUnicode_TransformDecimalAndSpaceToASCII\<close>: code points below 127 stay, a Unicode
  space becomes a blank, a Unicode decimal digit becomes its ASCII digit, anything else
  becomes \<open>?\<close>) and then parses base 10 (\<open>PyLong_FromString\<close>): blanks, an optional sign,
  digits with single underscores between them, blanks, end of string. A run of more than
  \<open>int_max_str_digits\<close> digits is refused when that limit is set, and the limit is only
  looked at beyond 640 digits. \<open>int(None)\<close> raises \<open>TypeError\<close>; every failure is
  \<open>None\<close> here, since each call site catches whatever is raised.
\<close>

definition to_ascii :: "unicodedata \<Rightarrow> codepoint \<Rightarrow> codepoint" where
  "to_ascii ud c =
     (if c < 127 then c
      else if unicode_isspace c then 32
      else if c < 128 then 63
      else (case todecimal ud c of None \<Rightarrow> 63 | Some d \<Rightarrow> 48 + d))"

definition ascii_digit :: "codepoint \<Rightarrow> bool" where
  "ascii_digit c \<longleftrightarrow> 48 \<le> c \<and> c \<le> 57"

fun underscores_ok :: "codepoint list \<Rightarrow> bool" where
  "underscores_ok [] = False"
| "underscores_ok [c] = (c \<noteq> 95)"
| "underscores_ok (c # d # cs) = (\<not> (c = 95 \<and> d = 95) \<and> underscores_ok (d # cs))"

definition digits_value :: "codepoint list \<Rightarrow> nat" where
  "digits_value ds = foldl (\<lambda>acc c. 10 * acc + (c - 48)) 0 ds"

definition long_from_string :: "nat \<Rightarrow> codepoint list \<Rightarrow> int option" where
  "long_from_string max_digits buf =
     (let s1 = dropWhile ascii_isspace buf;
          negative = (s1 \<noteq> [] \<and> hd s1 = 45);
          s2 = (if s1 \<noteq> [] \<and> (hd s1 = 43 \<or> hd s1 = 45) then tl s1 else s1);
          run = takeWhile (\<lambda>c. ascii_digit c \<or> c = 95) s2;
          rest = dropWhile ascii_isspace (dropWhile (\<lambda>c. ascii_digit c \<or> c = 95) s2);
          ds = filter ascii_digit run
      in if run = [] \<or> hd run = 95 \<or> \<not> underscores_ok run then None
         else if 0 < max_digits \<and> 640 < length ds \<and> max_digits < length ds then None
         else if rest \<noteq> [] then None
         else Some (if negative then - int (digits_value ds) else int (digits_value ds)))"

fun py_int :: "py_env \<Rightarrow> pyval \<Rightarrow> int option" where
  "py_int env PyNone = None"
| "py_int env (PyInt i) = Some i"
| "py_int env (PyStr s) = long_from_string (int_max_str_digits env) (map (to_ascii (unicode env)) s)"

section \<open>Requests and responses\<close>

text \<open>
  A request as the handlers see it: the headers (\<open>self.request.headers\<close>) and the decoded
  values of each form or query argument (\<open>self.request.arguments\<close>, a list per name,
  empty when the argument is absent). \<open>headers.get\<close> gives \<open>None\<close> for an absent header.
\<close>

record request =
  headers :: "string \<rightharpoonup> str"
  arguments :: "string \<Rightarrow> str list"

definition headers_get :: "request \<Rightarrow> string \<Rightarrow> pyval" where
  "headers_get req k = (case headers req k of None \<Rightarrow> PyNone | Some v \<Rightarrow> PyStr v)"

text \<open>
  The rows of table \<open>users\<close> and the user objects of the responses have the same four
  keys. The key \<open>id\<close> is the field \<open>uid\<close> here, \<open>id\<close> being the identity function of HOL.
\<close>

record user =
  uid :: int
  name :: str
  created_at :: int
  updated_at :: int

text \<open>
  The three shapes of object that the handlers pass to \<open>write_json\<close>:
  \<open>{"result": False, "error": e}\<close>, \<open>{"result": True, "user": u}\<close> and
  \<open>{"result": True, "users": us}\<close>.
\<close>

datatype json_obj = ResultError string | ResultUser user | ResultUsers "user list"

record response =
  status_code :: nat
  obj :: json_obj

definition write_json :: "json_obj \<Rightarrow> nat \<Rightarrow> response" where
  "write_json ob status = \<lparr>status_code = status, obj = ob\<rparr>"

text \<open>
  What a handler can raise without catching it: \<open>MissingArgumentError\<close> from
  \<open>get_argument\<close> and the errors of the database driver. The framework, not the
  handler, answers such a request.
\<close>

datatype db_error =
    InFailedSqlTransaction
  | SequenceGeneratorLimitExceeded
  | NumericValueOutOfRange
  | UniqueViolation
  | InvalidRowCountInResultOffsetClause
  | InvalidRowCountInLimitClause

datatype exn = MissingArgumentError string | DatabaseError db_error

subsection \<open>\<open>RequestHandler.get_argument\<close>\<close>

text \<open>
  Tornado's \<open>get_argument(name, default, strip=True)\<close>: every value of the argument has
  its control characters (the class \<open>[\x00-\x08\x0e-\x1f]\<close>) replaced by a blank and,
  \<open>strip\<close> being left at its default by every call of the service, its surrounding
  whitespace removed; the last value is returned, the default when there is none, and
  \<open>MissingArgumentError\<close> is raised when there is no default either.
\<close>

definition remove_control_chars :: "str \<Rightarrow> str" where
  "remove_control_chars s = map (\<lambda>c. if c \<le> 8 \<or> (14 \<le> c \<and> c \<le> 31) then 32 else c) s"

definition get_arguments :: "request \<Rightarrow> string \<Rightarrow> str list" where
  "get_arguments req k = map (\<lambda>v. strip (remove_control_chars v)) (arguments req k)"

definition get_argument :: "request \<Rightarrow> string \<Rightarrow> pyval option \<Rightarrow> exn + pyval" where
  "get_argument req k dflt =
     (let args = get_arguments req k
      in if args = [] then (case dflt of None \<Rightarrow> Inl (MissingArgumentError k) | Some d \<Rightarrow> Inr d)
         else Inr (PyStr (last args)))"

section \<open>Key validator (helper/com_key_handler.py)\<close>

text \<open>
  The result is the error message, \<open>None\<close> for a valid key. \<open>str\<close> cannot raise on
  the values of \<open>pyval\<close>, and the \<open>except\<close> branch of the source returns the same
  message as the comparison that fails.
\<close>

definition validate_communication_key :: "py_env \<Rightarrow> pyval \<Rightarrow> string option" where
  "validate_communication_key env key =
     (let key_str = PyStr (py_str key);
          secretKey = os_getenv env ''COM_X_KEY''
      in if key_str \<noteq> secretKey then Some ''Unauthorized'' else None)"

section \<open>Field validators (main.py)\<close>

text \<open>
  The classes of the pattern \<open>[\d\W]\<close> on a \<open>str\<close>: \<open>\d\<close> is a decimal digit,
  \<open>\w\<close> is an alphanumeric character or the underscore, \<open>\W\<close> is its complement.
  \<open>re.search\<close> succeeds when some character of the string is in the class.
\<close>

definition re_digit :: "unicodedata \<Rightarrow> codepoint \<Rightarrow> bool" where
  "re_digit ud c = (if c < 128 then ascii_digit c else todecimal ud c \<noteq> None)"

definition ascii_letter :: "codepoint \<Rightarrow> bool" where
  "ascii_letter c \<longleftrightarrow> (65 \<le> c \<and> c \<le> 90) \<or> (97 \<le> c \<and> c \<le> 122)"

definition re_word :: "unicodedata \<Rightarrow> codepoint \<Rightarrow> bool" where
  "re_word ud c =
     (c = 95 \<or> (if c < 128 then ascii_letter c \<or> ascii_digit c
                 else isalnum ud c \<or> todecimal ud c \<noteq> None))"

definition re_search_digit_or_nonword :: "unicodedata \<Rightarrow> str \<Rightarrow> bool" where
  "re_search_digit_or_nonword ud s = list_ex (\<lambda>c. re_digit ud c \<or> \<not> re_word ud c) s"

definition replace_spaces :: "str \<Rightarrow> str" where
  "replace_spaces s = filter (\<lambda>c. c \<noteq> 32) s"

text \<open>
  The validators return \<open>(value, None)\<close> or \<open>(None, message)\<close>; that pair is the sum
  \<open>Inr value\<close> or \<open>Inl message\<close> here. The \<open>except\<close> branch of \<open>_validate_name\<close>
  (\<open>"Invalid name"\<close>) is not reached by a value of \<open>pyval\<close>; that of
  \<open>_validate_user_id\<close> is reached when \<open>int\<close> fails.
\<close>

definition validate_name :: "py_env \<Rightarrow> pyval \<Rightarrow> string + str" where
  "validate_name env name_arg =
     (let name_str = py_str name_arg
      in if name_str = [] then Inl ''Name cannot be empty''
         else if re_search_digit_or_nonword (unicode env) (replace_spaces name_str)
           then Inl ''Name cannot be filled with number or symbol''
         else Inr name_str)"

definition validate_user_id :: "py_env \<Rightarrow> pyval \<Rightarrow> string + int" where
  "validate_user_id env user_id =
     (case py_int env user_id of
        None \<Rightarrow> Inl ''Invalid user_id''
      | Some n \<Rightarrow> if n = 0 then Inl ''User ID cannot be 0'' else Inr n)"

section \<open>The store\<close>

text \<open>
  \<open>self.application.db\<close> is one psycopg connection, shared by all requests, together
  with the database behind it: the rows of table \<open>users\<close> in the order of their
  insertion, the last value handed out by the sequence of the \<open>SERIAL\<close> column, the
  state of the connection's transaction, and the statements sent so far. The connection
  is not in autocommit mode (\<open>post\<close> commits), so a statement that fails leaves the
  transaction failed, and every later statement is refused until a rollback, which the
  handlers never issue. \<open>ORDER BY created_at\<close> does not say in which order rows of
  equal \<open>created_at\<close> come; \<open>tie_order c k\<close> ranks the rows for the statement sent
  after \<open>k\<close> others, and is a parameter of the store.
\<close>

datatype statement =
    InsertUser str int int
  | SelectUsersPage int int
  | SelectUserById int
  | Commit

record connection =
  users :: "user list"
  users_id_seq :: nat
  failed :: bool
  executed :: "statement list"
  tie_order :: "nat \<Rightarrow> user \<Rightarrow> nat"

definition sent :: "statement \<Rightarrow> connection \<Rightarrow> connection" where
  "sent st c = c\<lparr>executed := executed c @ [st]\<rparr>"

definition abort :: "connection \<Rightarrow> connection" where
  "abort c = c\<lparr>failed := True\<rparr>"

definition int4_max :: nat where
  "int4_max = 2147483647"

definition in_int8 :: "int \<Rightarrow> bool" where
  "in_int8 i \<longleftrightarrow> - 9223372036854775808 \<le> i \<and> i \<le> 9223372036854775807"

text \<open>
  \<open>INSERT INTO users (name, created_at, updated_at) VALUES (%s, %s, %s) RETURNING id\<close>
  followed by \<open>fetchone()\<close>: the two times must fit a \<open>BIGINT\<close>, which is tested
  before the sequence is touched; the id comes from the sequence (an \<open>integer\<close>); the
  id must not be taken (\<open>PRIMARY KEY\<close>). The result is the id of the fetched row.
\<close>

definition execute_insert :: "connection \<Rightarrow> str \<Rightarrow> int \<Rightarrow> int \<Rightarrow> (db_error + int option) \<times> connection" where
  "execute_insert c0 nm ca ua =
     (let c = sent (InsertUser nm ca ua) c0
      in if failed c then (Inl InFailedSqlTransaction, c)
         else if \<not> in_int8 ca \<or> \<not> in_int8 ua then (Inl NumericValueOutOfRange, abort c)
         else if int4_max \<le> users_id_seq c then (Inl SequenceGeneratorLimitExceeded, abort c)
         else
           (let i = Suc (users_id_seq c);
                c1 = c\<lparr>users_id_seq := i\<rparr>
            in if int i \<in> set (map uid (users c)) then (Inl UniqueViolation, abort c1)
               else (Inr (Some (int i)),
                     c1\<lparr>users := users c @ [\<lparr>uid = int i, name = nm, created_at = ca, updated_at = ua\<rparr>]\<rparr>)))"

definition commit :: "connection \<Rightarrow> connection" where
  "commit c = (sent Commit c)\<lparr>failed := False\<rparr>"

text \<open>
  \<open>SELECT * FROM users ORDER BY created_at DESC LIMIT %s OFFSET %s\<close>. PostgreSQL
  refuses a limit or an offset beyond \<open>BIGINT\<close> first, then a negative offset, then a
  negative limit. Rows of equal \<open>created_at\<close> come in the order of their rank.
\<close>

definition order_by_created_at_desc :: "(user \<Rightarrow> nat) \<Rightarrow> user list \<Rightarrow> user list" where
  "order_by_created_at_desc rank us = sort_key (\<lambda>u. - created_at u) (sort_key rank us)"

definition execute_select_page :: "connection \<Rightarrow> int \<Rightarrow> int \<Rightarrow> (db_error + user list) \<times> connection" where
  "execute_select_page c0 limit offset =
     (let c = sent (SelectUsersPage limit offset) c0
      in if failed c then (Inl InFailedSqlTransaction, c)
         else if \<not> in_int8 limit \<or> \<not> in_int8 offset then (Inl NumericValueOutOfRange, abort c)
         else if offset < 0 then (Inl InvalidRowCountInResultOffsetClause, abort c)
         else if limit < 0 then (Inl InvalidRowCountInLimitClause, abort c)
         else (Inr (take (nat limit) (drop (nat offset)
                 (order_by_created_at_desc (tie_order c (length (executed c0))) (users c)))), c))"

text \<open>\<open>SELECT * FROM users WHERE id = %s\<close> followed by \<open>fetchone()\<close>.\<close>

definition execute_select_by_id :: "connection \<Rightarrow> int \<Rightarrow> (db_error + user option) \<times> connection" where
  "execute_select_by_id c0 i =
     (let c = sent (SelectUserById i) c0
      in if failed c then (Inl InFailedSqlTransaction, c)
         else (Inr (find (\<lambda>u. uid u = i) (users c)), c))"

section \<open>Request handlers (main.py)\<close>

text \<open>
  The world of a handler: the connection and the clock. \<open>clock w k\<close> is the value of
  \<open>int(time.time() * 1e6)\<close> at the \<open>k\<close>-th reading; \<open>clock_reads\<close> counts the readings
  taken, so that a handler that reads the clock shows it in the world it returns. A
  handler returns the response it wrote or the exception it raised, and the new world.
  The calls of \<open>logging\<close> are left out.
\<close>

record world =
  db :: connection
  clock :: "nat \<Rightarrow> int"
  clock_reads :: nat

definition time_now_us :: "world \<Rightarrow> int \<times> world" where
  "time_now_us w = (clock w (clock_reads w), w\<lparr>clock_reads := Suc (clock_reads w)\<rparr>)"

definition UsersHandler_post :: "py_env \<Rightarrow> request \<Rightarrow> world \<Rightarrow> (exn + response) \<times> world" where
  "UsersHandler_post env req w =
     (case validate_communication_key env (headers_get req ''Com-X-Key'') of
        Some error \<Rightarrow> (Inr (write_json (ResultError error) 401), w)
      | None \<Rightarrow>
         (case get_argument req ''name'' None of
            Inl e \<Rightarrow> (Inl e, w)
          | Inr name_arg \<Rightarrow>
             (case validate_name env name_arg of
                Inl error \<Rightarrow> (Inr (write_json (ResultError error) 400), w)
              | Inr nm \<Rightarrow>
                 (let (time_now, w1) = time_now_us w
                  in case execute_insert (db w1) nm time_now time_now of
                       (Inl e, c) \<Rightarrow> (Inl (DatabaseError e), w1\<lparr>db := c\<rparr>)
                     | (Inr row, c) \<Rightarrow>
                        (let w2 = w1\<lparr>db := commit c\<rparr>
                         in case row of
                              None \<Rightarrow> (Inr (write_json (ResultError ''Failed to insert data into database'') 500), w2)
                            | Some row_id \<Rightarrow>
                               (Inr (write_json (ResultUser \<lparr>uid = row_id, name = nm,
                                        created_at = time_now, updated_at = time_now\<rparr>) 200), w2))))))"

definition UsersHandler_get :: "py_env \<Rightarrow> request \<Rightarrow> world \<Rightarrow> (exn + response) \<times> world" where
  "UsersHandler_get env req w =
     (case validate_communication_key env (headers_get req ''Com-X-Key'') of
        Some error \<Rightarrow> (Inr (write_json (ResultError error) 401), w)
      | None \<Rightarrow>
         (case get_argument req ''page_num'' (Some (PyInt 1)) of
            Inl e \<Rightarrow> (Inl e, w)
          | Inr page_num_arg \<Rightarrow>
             (case get_argument req ''page_size'' (Some (PyInt 10)) of
                Inl e \<Rightarrow> (Inl e, w)
              | Inr page_size_arg \<Rightarrow>
                 (case py_int env page_num_arg of
                    None \<Rightarrow> (Inr (write_json (ResultError ''Invalid page_num'') 400), w)
                  | Some page_num \<Rightarrow>
                     (case py_int env page_size_arg of
                        None \<Rightarrow> (Inr (write_json (ResultError ''Invalid page_size'') 400), w)
                      | Some page_size \<Rightarrow>
                         (let limit = page_size;
                              offset = (page_num - 1) * page_size
                          in case execute_select_page (db w) limit offset of
                               (Inl e, c) \<Rightarrow> (Inl (DatabaseError e), w\<lparr>db := c\<rparr>)
                             | (Inr results, c) \<Rightarrow>
                                (Inr (write_json (ResultUsers results) 200), w\<lparr>db := c\<rparr>)))))))"

definition UserDetailHandler_get :: "py_env \<Rightarrow> request \<Rightarrow> str \<Rightarrow> world \<Rightarrow> (exn + response) \<times> world" where
  "UserDetailHandler_get env req user_id w =
     (case validate_communication_key env (headers_get req ''Com-X-Key'') of
        Some error \<Rightarrow> (Inr (write_json (ResultError error) 401), w)
      | None \<Rightarrow>
         (case validate_user_id env (PyStr user_id) of
            Inl error \<Rightarrow> (Inr (write_json (ResultError error) 400), w)
          | Inr user_id_validated \<Rightarrow>
             (case execute_select_by_id (db w) user_id_validated of
                (Inl e, c) \<Rightarrow> (Inl (DatabaseError e), w\<lparr>db := c\<rparr>)
              | (Inr None, c) \<Rightarrow> (Inr (write_json (ResultError ''User is not found'') 404), w\<lparr>db := c\<rparr>)
              | (Inr (Some result), c) \<Rightarrow> (Inr (write_json (ResultUser result) 200), w\<lparr>db := c\<rparr>))))"

section \<open>Routes and sequences of requests\<close>

text \<open>
  \<open>make_app\<close> binds \<open>/users\<close> to \<open>UsersHandler\<close> (\<open>POST\<close> is Create, \<open>GET\<close> is
  List) and \<open>/users/([0-9]+)\<close> to \<open>UserDetailHandler\<close> (GetById, with the matched
  group as \<open>user_id\<close>). The requests of a run are served one after the other on the
  same world.
\<close>

datatype call = Create request | List request | GetById request str

fun handle :: "py_env \<Rightarrow> call \<Rightarrow> world \<Rightarrow> (exn + response) \<times> world" where
  "handle env (Create req) w = UsersHandler_post env req w"
| "handle env (List req) w = UsersHandler_get env req w"
| "handle env (GetById req user_id) w = UserDetailHandler_get env req user_id w"

definition serve :: "py_env \<Rightarrow> call list \<Rightarrow> world \<Rightarrow> world" where
  "serve env calls w = foldl (\<lambda>v c. snd (handle env c v)) w calls"

section \<open>The paging parameters as the specification words them\<close>

text \<open>
  The specification of List: a paging parameter has a default and is otherwise the value
  of the argument coerced to an integer, the coercion possibly failing. This definition
  follows those words; \<open>UsersHandler_get\<close> above follows the source, and the two are
  compared below.
\<close>

definition page_param :: "py_env \<Rightarrow> request \<Rightarrow> string \<Rightarrow> int \<Rightarrow> int option" where
  "page_param env req k d =
     (case get_arguments req k of [] \<Rightarrow> Some d | v # vs \<Rightarrow> py_int env (PyStr (last (v # vs))))"

section \<open>Example inputs\<close>

text \<open>
  A process whose secret is \<open>s3cret\<close>, an empty table on a fresh connection with a clock
  that starts at 1700000000000000 microseconds, requests given by their key header and
  their arguments, and the user that the first Create of the name \<open>Jane Doe\<close> makes.
\<close>

definition example_env :: py_env where
  "example_env = \<lparr>environ = [''COM_X_KEY'' \<mapsto> lit ''s3cret''], unicode = ascii_only,
                    int_max_str_digits = 4300\<rparr>"

definition example_world :: world where
  "example_world =
     \<lparr>db = \<lparr>users = [], users_id_seq = 0, failed = False, executed = [],
            tie_order = (\<lambda>k u. 0)\<rparr>,
      clock = (\<lambda>k. 1700000000000000 + int k), clock_reads = 0\<rparr>"

definition example_request :: "str option \<Rightarrow> (string \<times> str) list \<Rightarrow> request" where
  "example_request key args =
     \<lparr>headers = (\<lambda>h. if h = ''Com-X-Key'' then key else None),
      arguments = (\<lambda>k. map snd (filter (\<lambda>a. fst a = k) args))\<rparr>"

definition jane :: user where
  "jane = \<lparr>uid = 1, name = lit ''Jane Doe'', created_at = 1700000000000000,
           updated_at = 1700000000000000\<rparr>"

definition example_world_created :: world where
  "example_world_created =
     \<lparr>db = \<lparr>users = [jane], users_id_seq = 1, failed = False,
            executed = [InsertUser (lit ''Jane Doe'') 1700000000000000 1700000000000000, Commit],
            tie_order = (\<lambda>k u. 0)\<rparr>,
      clock = (\<lambda>k. 1700000000000000 + int k), clock_reads = 1\<rparr>"

text \<open>
  The same process with the secret \<open>None\<close>, and the world that a List request with
  \<open>page_size=-1\<close> leaves behind when it is served after that Create: the statement has
  been refused and the transaction of the connection has failed.
\<close>

definition example_env_None :: py_env where
  "example_env_None = example_env\<lparr>environ := [''COM_X_KEY'' \<mapsto> lit ''None'']\<rparr>"

definition example_world_failed :: world where
  "example_world_failed =
     \<lparr>db = \<lparr>users = [jane], users_id_seq = 1, failed = True,
            executed = [InsertUser (lit ''Jane Doe'') 1700000000000000 1700000000000000, Commit,
                        SelectUsersPage (- 1) 0],
            tie_order = (\<lambda>k u. 0)\<rparr>,
      clock = (\<lambda>k. 1700000000000000 + int k), clock_reads = 1\<rparr>"

lemmas eval_defs =
  example_env_def example_request_def example_world_def example_world_created_def jane_def
  example_env_None_def example_world_failed_def
  validate_communication_key_def headers_get_def os_getenv_def lit_def get_argument_def
  get_arguments_def remove_control_chars_def strip_def unicode_isspace_def validate_name_def
  replace_spaces_def re_search_digit_or_nonword_def re_digit_def re_word_def ascii_digit_def
  ascii_letter_def ascii_only_def time_now_us_def execute_insert_def sent_def int4_max_def
  in_int8_def commit_def write_json_def abort_def Let_def execute_select_page_def
  execute_select_by_id_def validate_user_id_def long_from_string_def to_ascii_def
  ascii_isspace_def digits_value_def order_by_created_at_desc_def page_param_def

section \<open>The key validator\<close>

lemma validate_communication_key_iff:
  "validate_communication_key env key = None \<longleftrightarrow> os_getenv env ''COM_X_KEY'' = PyStr (py_str key)"
  by (auto simp: validate_communication_key_def Let_def)

lemma validate_communication_key_cases:
  "validate_communication_key env key = None \<or> validate_communication_key env key = Some ''Unauthorized''"
  by (simp add: validate_communication_key_def Let_def)

lemma example_key_valid:
  "validate_communication_key example_env (headers_get (example_request (Some (lit ''s3cret'')) args) ''Com-X-Key'') = None"
  by (simp add: eval_defs)

text \<open>
  C10. The validator compares \<open>str(key)\<close> with the secret, so an absent header
  (\<open>None\<close>) and a header whose value is the string \<open>None\<close> have the same outcome
  for every secret; when the secret is the string \<open>None\<close>, a request without the
  header passes the validator.
\<close>

theorem absent_key_equals_None_string:
  "validate_communication_key env PyNone = validate_communication_key env (PyStr (lit ''None''))
   \<and> (headers req ''Com-X-Key'' = None \<and> environ env ''COM_X_KEY'' = Some (lit ''None'')
        \<longrightarrow> validate_communication_key env (headers_get req ''Com-X-Key'') = None)"
  by (simp add: validate_communication_key_def headers_get_def os_getenv_def)

theorem absent_key_equals_None_string_witness:
  "headers (example_request None []) ''Com-X-Key'' = None
   \<and> environ (example_env\<lparr>environ := [''COM_X_KEY'' \<mapsto> lit ''None'']\<rparr>) ''COM_X_KEY'' = Some (lit ''None'')
   \<and> validate_communication_key (example_env\<lparr>environ := [''COM_X_KEY'' \<mapsto> lit ''None'']\<rparr>)
        (headers_get (example_request None []) ''Com-X-Key'') = None"
  using absent_key_equals_None_string
    [of "example_env\<lparr>environ := [''COM_X_KEY'' \<mapsto> lit ''None'']\<rparr>" "example_request None []"]
  by (simp add: example_request_def)

text \<open>
  C1, as the claim states it, fails when the header is absent and the secret is the
  string \<open>None\<close>: the credential of the request is \<open>None\<close>, which is not the secret,
  yet none of the three handlers answers 401. Create stores the user, List answers with
  the users, GetById looks the id up.
\<close>

theorem absent_key_served_with_secret_None:
  "headers_get (example_request None [(''name'', lit ''Jane Doe'')]) ''Com-X-Key'' = PyNone
   \<and> os_getenv example_env_None ''COM_X_KEY'' = PyStr (lit ''None'')
   \<and> PyNone \<noteq> PyStr (lit ''None'')
   \<and> UsersHandler_post example_env_None
        (example_request None [(''name'', lit ''Jane Doe'')]) example_world =
       (Inr \<lparr>status_code = 200, obj = ResultUser jane\<rparr>, example_world_created)
   \<and> UsersHandler_get example_env_None
        (example_request None [(''name'', lit ''Jane Doe'')]) example_world_created =
       (Inr \<lparr>status_code = 200, obj = ResultUsers [jane]\<rparr>,
        example_world_created\<lparr>db := sent (SelectUsersPage 10 0) (db example_world_created)\<rparr>)
   \<and> UserDetailHandler_get example_env_None
        (example_request None [(''name'', lit ''Jane Doe'')]) (lit ''1'') example_world_created =
       (Inr \<lparr>status_code = 200, obj = ResultUser jane\<rparr>,
        example_world_created\<lparr>db := sent (SelectUserById 1) (db example_world_created)\<rparr>)"
  by (simp add: UsersHandler_post_def UsersHandler_get_def UserDetailHandler_get_def eval_defs)

text \<open>
  C1, amended. When the key of the request, coerced with \<open>str\<close> as the validator
  coerces it (an absent header being the string \<open>None\<close>), differs from the configured
  secret, each of the three handlers answers 401 with
  \<open>{"result": False, "error": "Unauthorized"}\<close>, whatever the arguments, the path and
  the world are, and leaves the world as it was: no statement has been sent to the store
  and the clock has not been read.
\<close>

theorem unauthorized_before_anything_else:
  assumes "os_getenv env ''COM_X_KEY'' \<noteq> PyStr (py_str (headers_get req ''Com-X-Key''))"
  shows "UsersHandler_post env req w =
           (Inr \<lparr>status_code = 401, obj = ResultError ''Unauthorized''\<rparr>, w)
       \<and> UsersHandler_get env req w =
           (Inr \<lparr>status_code = 401, obj = ResultError ''Unauthorized''\<rparr>, w)
       \<and> UserDetailHandler_get env req user_id w =
           (Inr \<lparr>status_code = 401, obj = ResultError ''Unauthorized''\<rparr>, w)"
proof -
  have "validate_communication_key env (headers_get req ''Com-X-Key'') = Some ''Unauthorized''"
    using assms by (auto simp: validate_communication_key_def Let_def)
  then show ?thesis
    by (simp add: UsersHandler_post_def UsersHandler_get_def UserDetailHandler_get_def
        write_json_def)
qed

theorem unauthorized_before_anything_else_witness:
  "os_getenv example_env ''COM_X_KEY'' \<noteq>
     PyStr (py_str (headers_get (example_request (Some (lit ''guess'')) [(''name'', lit ''Jane'')]) ''Com-X-Key''))
   \<and> UsersHandler_post example_env (example_request (Some (lit ''guess'')) [(''name'', lit ''Jane'')]) example_world =
       (Inr \<lparr>status_code = 401, obj = ResultError ''Unauthorized''\<rparr>, example_world)
   \<and> UsersHandler_get example_env (example_request (Some (lit ''guess'')) [(''name'', lit ''Jane'')]) example_world =
       (Inr \<lparr>status_code = 401, obj = ResultError ''Unauthorized''\<rparr>, example_world)
   \<and> UserDetailHandler_get example_env (example_request (Some (lit ''guess'')) [(''name'', lit ''Jane'')]) (lit ''1'') example_world =
       (Inr \<lparr>status_code = 401, obj = ResultError ''Unauthorized''\<rparr>, example_world)"
proof -
  have h: "os_getenv example_env ''COM_X_KEY'' \<noteq>
     PyStr (py_str (headers_get (example_request (Some (lit ''guess'')) [(''name'', lit ''Jane'')]) ''Com-X-Key''))"
    by (simp add: os_getenv_def example_env_def headers_get_def example_request_def lit_def)
  show ?thesis
    using h unauthorized_before_anything_else [OF h, of example_world "lit ''1''"] by simp
qed

section \<open>The name validator\<close>

text \<open>
  C2. \<open>_validate_name\<close> on any value: the text \<open>str(value)\<close> that is empty gives
  "Name cannot be empty"; otherwise a character other than the blank that is a digit
  (\<open>\d\<close>) or not a word character (\<open>\W\<close>) gives "Name cannot be filled with number or
  symbol"; otherwise the text is returned as it is, blanks included.
\<close>

theorem validate_name_cases:
  "validate_name env v =
     (if py_str v = [] then Inl ''Name cannot be empty''
      else if \<exists>c \<in> set (py_str v). c \<noteq> 32 \<and> (re_digit (unicode env) c \<or> \<not> re_word (unicode env) c)
        then Inl ''Name cannot be filled with number or symbol''
      else Inr (py_str v))"
  by (auto simp: validate_name_def Let_def re_search_digit_or_nonword_def replace_spaces_def
      list_ex_iff)

theorem validate_name_cases_witness:
  "validate_name example_env (PyStr (lit [])) = Inl ''Name cannot be empty''
   \<and> validate_name example_env (PyStr (lit ''Jane1'')) = Inl ''Name cannot be filled with number or symbol''
   \<and> validate_name example_env (PyStr (lit ''Jane Doe'')) = Inr (lit ''Jane Doe'')"
  using validate_name_cases [of example_env "PyStr (lit [])"]
    validate_name_cases [of example_env "PyStr (lit ''Jane1'')"]
    validate_name_cases [of example_env "PyStr (lit ''Jane Doe'')"]
  by (simp add: lit_def example_env_def ascii_only_def re_digit_def re_word_def ascii_digit_def
      ascii_letter_def)

text \<open>
  On ASCII the class \<open>[\d\W]\<close> is everything but the letters and the underscore, and
  every character of an accepted name other than the blank is a word character that is
  not a decimal digit.
\<close>

lemma ascii_digit_or_nonword:
  "c < 128 \<Longrightarrow> (re_digit ud c \<or> \<not> re_word ud c) \<longleftrightarrow> \<not> (ascii_letter c \<or> c = 95)"
  by (auto simp: re_digit_def re_word_def ascii_digit_def ascii_letter_def)

lemma validate_name_accepted:
  assumes "validate_name env v = Inr nm" and "c \<in> set (replace_spaces nm)"
  shows "re_word (unicode env) c \<and> \<not> re_digit (unicode env) c"
  using assms
  by (auto simp: validate_name_def Let_def re_search_digit_or_nonword_def replace_spaces_def
      list_ex_iff split: if_splits)

lemma validate_name_returns_text:
  "validate_name env v = Inr nm \<Longrightarrow> nm = py_str v"
  by (auto simp: validate_name_def Let_def split: if_splits)

text \<open>
  C8. The name \<open>_\<close> is accepted, and its one character is not a letter: the class
  \<open>\W\<close> does not contain the underscore, which the validator therefore lets through
  although its own message excludes symbols.
\<close>

theorem underscore_accepted_as_name:
  "validate_name env (PyStr (lit ''_'')) = Inr (lit ''_'')
   \<and> replace_spaces (lit ''_'') = [95] \<and> \<not> ascii_letter 95"
  by (simp add: validate_name_def lit_def replace_spaces_def re_search_digit_or_nonword_def
      re_digit_def re_word_def ascii_digit_def ascii_letter_def)

text \<open>
  The handler passes the name on: Create with the \<open>name\<close> argument \<open>_\<close> answers 200
  and stores a user of that name.
\<close>

lemma create_accepts_underscore:
  "fst (UsersHandler_post example_env
          (example_request (Some (lit ''s3cret'')) [(''name'', lit ''_'')]) example_world) =
     Inr \<lparr>status_code = 200,
          obj = ResultUser \<lparr>uid = 1, name = lit ''_'', created_at = 1700000000000000,
                            updated_at = 1700000000000000\<rparr>\<rparr>"
  by (simp add: UsersHandler_post_def eval_defs)

section \<open>Reading arguments\<close>

lemma get_argument_absent:
  "arguments req k = [] \<Longrightarrow>
   get_argument req k dflt = (case dflt of None \<Rightarrow> Inl (MissingArgumentError k) | Some d \<Rightarrow> Inr d)"
  by (simp add: get_argument_def get_arguments_def)

lemma get_argument_present:
  "arguments req k \<noteq> [] \<Longrightarrow>
   get_argument req k dflt = Inr (PyStr (strip (remove_control_chars (last (arguments req k)))))"
  by (simp add: get_argument_def get_arguments_def last_map)


lemma strip_blanks:
  assumes "set s \<subseteq> {32}"
  shows "strip (remove_control_chars s) = []"
proof -
  have r: "remove_control_chars s = s"
    using assms by (auto simp: remove_control_chars_def intro!: map_idI)
  have "\<forall>c \<in> set s. unicode_isspace c"
    using assms by (auto simp: unicode_isspace_def)
  then have d: "dropWhile unicode_isspace s = []"
    by simp
  show ?thesis
    unfolding strip_def r d by simp
qed

section \<open>The store\<close>

lemma execute_insert_row:
  assumes "execute_insert c0 nm ca ua = (Inr row, c)"
  shows "row = Some (int (Suc (users_id_seq c0)))"
    and "\<not> failed c0"
    and "int (Suc (users_id_seq c0)) \<notin> set (map uid (users c0))"
    and "c = c0\<lparr>executed := executed c0 @ [InsertUser nm ca ua],
              users_id_seq := Suc (users_id_seq c0),
              users := users c0 @ [\<lparr>uid = int (Suc (users_id_seq c0)), name = nm,
                                    created_at = ca, updated_at = ua\<rparr>]\<rparr>"
  using assms
  by (auto simp: execute_insert_def sent_def abort_def Let_def split: if_splits)

lemma execute_insert_succeeds:
  assumes "\<not> failed c0" and "users_id_seq c0 < int4_max" and "in_int8 ca" and "in_int8 ua"
      and "int (Suc (users_id_seq c0)) \<notin> set (map uid (users c0))"
  shows "execute_insert c0 nm ca ua =
           (Inr (Some (int (Suc (users_id_seq c0)))),
            c0\<lparr>executed := executed c0 @ [InsertUser nm ca ua],
              users_id_seq := Suc (users_id_seq c0),
              users := users c0 @ [\<lparr>uid = int (Suc (users_id_seq c0)), name = nm,
                                    created_at = ca, updated_at = ua\<rparr>]\<rparr>)"
  using assms
  by (auto simp: execute_insert_def sent_def abort_def Let_def)

lemma execute_insert_users:
  "\<exists>vs. users (snd (execute_insert c nm ca ua)) = users c @ vs"
  by (simp add: execute_insert_def sent_def abort_def Let_def)

lemma execute_select_by_id_alive:
  "\<not> failed c \<Longrightarrow>
   execute_select_by_id c i = (Inr (find (\<lambda>r. uid r = i) (users c)), sent (SelectUserById i) c)"
  by (simp add: execute_select_by_id_def sent_def Let_def)


lemma find_appended_row:
  "uid u \<notin> set (map uid us) \<Longrightarrow> find (\<lambda>r. uid r = uid u) (us @ [u]) = Some u"
  by (induction us) auto

lemma find_append_found:
  "find P us = Some u \<Longrightarrow> find P (us @ vs) = Some u"
  by (induction us) (auto split: if_splits)

section \<open>Create\<close>

text \<open>
  C4, as the claim states it, fails on a name with surrounding blanks: the name
  \<open>" Jane Doe "\<close> is valid for \<open>_validate_name\<close>, yet the user that Create answers
  with and stores is named \<open>"Jane Doe"\<close>, the argument as \<open>get_argument\<close> returns it.
\<close>

theorem create_strips_submitted_name:
  "validate_name example_env (PyStr (lit '' Jane Doe '')) = Inr (lit '' Jane Doe '')
   \<and> UsersHandler_post example_env
        (example_request (Some (lit ''s3cret'')) [(''name'', lit '' Jane Doe '')]) example_world =
       (Inr \<lparr>status_code = 200, obj = ResultUser jane\<rparr>, example_world_created)
   \<and> name jane \<noteq> lit '' Jane Doe ''"
  by (simp add: UsersHandler_post_def eval_defs)

text \<open>
  C4, amended. For a Create request with a valid key whose \<open>name\<close> argument, with its
  control characters replaced by blanks and its surrounding whitespace stripped, is a
  valid name, and whose \<open>INSERT\<close> the store executes, returning the id \<open>i\<close>: the
  clock is read once, the reading is both \<open>created_at\<close> and \<open>updated_at\<close>, and the
  answer is 200 with the user of id \<open>i\<close> and of that stripped name.
\<close>

theorem create_responds_with_inserted_user:
  assumes key: "validate_communication_key env (headers_get req ''Com-X-Key'') = None"
      and present: "arguments req ''name'' \<noteq> []"
      and nm: "nm = strip (remove_control_chars (last (arguments req ''name'')))"
      and valid: "validate_name env (PyStr nm) = Inr nm"
      and store: "execute_insert (db w) nm (clock w (clock_reads w)) (clock w (clock_reads w)) =
                    (Inr (Some i), c)"
  shows "UsersHandler_post env req w =
          (Inr \<lparr>status_code = 200,
                obj = ResultUser \<lparr>uid = i, name = nm, created_at = clock w (clock_reads w),
                                  updated_at = clock w (clock_reads w)\<rparr>\<rparr>,
           w\<lparr>clock_reads := Suc (clock_reads w), db := commit c\<rparr>)"
proof -
  have arg: "get_argument req ''name'' None = Inr (PyStr nm)"
    using present nm by (simp add: get_argument_present)
  show ?thesis
    using key arg valid store
    by (simp add: UsersHandler_post_def time_now_us_def write_json_def)
qed

theorem create_responds_with_inserted_user_witness:
  "UsersHandler_post example_env
     (example_request (Some (lit ''s3cret'')) [(''name'', lit ''Jane Doe'')]) example_world =
   (Inr \<lparr>status_code = 200, obj = ResultUser jane\<rparr>, example_world_created)"
proof -
  have key: "validate_communication_key example_env
      (headers_get (example_request (Some (lit ''s3cret'')) [(''name'', lit ''Jane Doe'')]) ''Com-X-Key'') = None"
    by (rule example_key_valid)
  have present: "arguments (example_request (Some (lit ''s3cret'')) [(''name'', lit ''Jane Doe'')]) ''name'' \<noteq> []"
    by (simp add: example_request_def)
  have nm: "lit ''Jane Doe'' = strip (remove_control_chars
      (last (arguments (example_request (Some (lit ''s3cret'')) [(''name'', lit ''Jane Doe'')]) ''name'')))"
    by (simp add: eval_defs)
  have valid: "validate_name example_env (PyStr (lit ''Jane Doe'')) = Inr (lit ''Jane Doe'')"
    by (simp add: eval_defs)
  have store: "execute_insert (db example_world) (lit ''Jane Doe'')
      (clock example_world (clock_reads example_world)) (clock example_world (clock_reads example_world)) =
      (Inr (Some 1), \<lparr>users = [jane], users_id_seq = 1, failed = False,
          executed = [InsertUser (lit ''Jane Doe'') 1700000000000000 1700000000000000],
          tie_order = (\<lambda>k u. 0)\<rparr>)"
    by (simp add: eval_defs)
  show ?thesis
    using create_responds_with_inserted_user [OF key present nm valid store]
    by (simp add: eval_defs)
qed

lemma post_200:
  assumes "UsersHandler_post env req w = (Inr \<lparr>status_code = 200, obj = ResultUser u\<rparr>, w')"
  shows "\<exists>c. execute_insert (db w) (name u) (created_at u) (updated_at u) = (Inr (Some (uid u)), c)
            \<and> w' = w\<lparr>clock_reads := Suc (clock_reads w), db := commit c\<rparr>"
  using assms
  by (auto simp: UsersHandler_post_def time_now_us_def write_json_def Let_def
      split: option.splits sum.splits prod.splits)

text \<open>
  C7, as the claim states it, fails: for a Create request with a valid key and no
  \<open>name\<close> argument, \<open>get_argument\<close> raises \<open>MissingArgumentError\<close>, which the handler
  does not catch. \<open>_validate_name\<close> is not reached and the handler writes no body.
\<close>

theorem create_without_name_raises:
  "validate_communication_key example_env
     (headers_get (example_request (Some (lit ''s3cret'')) []) ''Com-X-Key'') = None
   \<and> UsersHandler_post example_env (example_request (Some (lit ''s3cret'')) []) example_world =
       (Inl (MissingArgumentError ''name''), example_world)"
  by (simp add: UsersHandler_post_def eval_defs)

lemma handler_response_shape_post:
  "UsersHandler_post env req w = (Inr r, w') \<Longrightarrow> status_code r \<noteq> 200 \<Longrightarrow> \<exists>msg. obj r = ResultError msg"
  by (auto simp: UsersHandler_post_def time_now_us_def write_json_def Let_def
      split: option.splits sum.splits prod.splits)

lemma handler_response_shape_get:
  "UsersHandler_get env req w = (Inr r, w') \<Longrightarrow> status_code r \<noteq> 200 \<Longrightarrow> \<exists>msg. obj r = ResultError msg"
  by (auto simp: UsersHandler_get_def write_json_def Let_def
      split: option.splits sum.splits prod.splits)

lemma handler_response_shape_detail:
  "UserDetailHandler_get env req user_id w = (Inr r, w') \<Longrightarrow> status_code r \<noteq> 200 \<Longrightarrow> \<exists>msg. obj r = ResultError msg"
  by (auto simp: UserDetailHandler_get_def write_json_def Let_def
      split: option.splits sum.splits prod.splits)

text \<open>
  C7, amended. A Create request with a valid key and no \<open>name\<close> argument makes the
  handler raise \<open>MissingArgumentError\<close> with the world untouched, and every response
  that one of the three handlers writes with a status other than 200 has a body of the
  shape \<open>{"result": False, "error": message}\<close>.
\<close>

theorem missing_name_raises:
  "(validate_communication_key env (headers_get req ''Com-X-Key'') = None \<and> arguments req ''name'' = []
      \<longrightarrow> UsersHandler_post env req w = (Inl (MissingArgumentError ''name''), w))
   \<and> (\<forall>r w'. (UsersHandler_post env req w = (Inr r, w') \<or> UsersHandler_get env req w = (Inr r, w')
                \<or> UserDetailHandler_get env req user_id w = (Inr r, w'))
              \<and> status_code r \<noteq> 200
         \<longrightarrow> (\<exists>msg. obj r = ResultError msg))"
proof -
  have a: "validate_communication_key env (headers_get req ''Com-X-Key'') = None \<and> arguments req ''name'' = []
      \<longrightarrow> UsersHandler_post env req w = (Inl (MissingArgumentError ''name''), w)"
    by (simp add: UsersHandler_post_def get_argument_absent)
  have b: "\<forall>r w'. (UsersHandler_post env req w = (Inr r, w') \<or> UsersHandler_get env req w = (Inr r, w')
                \<or> UserDetailHandler_get env req user_id w = (Inr r, w'))
              \<and> status_code r \<noteq> 200
         \<longrightarrow> (\<exists>msg. obj r = ResultError msg)"
    using handler_response_shape_post handler_response_shape_get handler_response_shape_detail
    by blast
  from a b show ?thesis by blast
qed

theorem missing_name_raises_witness:
  "arguments (example_request (Some (lit ''s3cret'')) [(''page_num'', lit ''1'')]) ''name'' = []
   \<and> UsersHandler_post example_env
        (example_request (Some (lit ''s3cret'')) [(''page_num'', lit ''1'')]) example_world_created =
       (Inl (MissingArgumentError ''name''), example_world_created)
   \<and> UserDetailHandler_get example_env
        (example_request (Some (lit ''s3cret'')) [(''page_num'', lit ''1'')]) (lit ''0'') example_world_created =
       (Inr \<lparr>status_code = 400, obj = ResultError ''User ID cannot be 0''\<rparr>, example_world_created)
   \<and> (\<exists>msg. obj \<lparr>status_code = 400, obj = ResultError ''User ID cannot be 0''\<rparr> = ResultError msg)"
proof -
  have d: "UserDetailHandler_get example_env
        (example_request (Some (lit ''s3cret'')) [(''page_num'', lit ''1'')]) (lit ''0'') example_world_created =
       (Inr \<lparr>status_code = 400, obj = ResultError ''User ID cannot be 0''\<rparr>, example_world_created)"
    by (simp add: UserDetailHandler_get_def eval_defs)
  have n: "arguments (example_request (Some (lit ''s3cret'')) [(''page_num'', lit ''1'')]) ''name'' = []"
    by (simp add: example_request_def)
  show ?thesis
    using d n example_key_valid [of "[(''page_num'', lit ''1'')]"]
      missing_name_raises [of example_env
        "example_request (Some (lit ''s3cret'')) [(''page_num'', lit ''1'')]" example_world_created "lit ''0''"]
    by simp
qed

text \<open>
  C9, as the claim states it, fails in its second half: \<open>_validate_name\<close> accepts the
  name \<open>" "\<close>, but Create with the \<open>name\<close> argument \<open>" "\<close> answers 400 "Name cannot
  be empty" and stores nothing, \<open>get_argument\<close> having stripped the blank.
\<close>

theorem create_refuses_blank_name:
  "validate_name example_env (PyStr (lit '' '')) = Inr (lit '' '')
   \<and> UsersHandler_post example_env
        (example_request (Some (lit ''s3cret'')) [(''name'', lit '' '')]) example_world =
       (Inr \<lparr>status_code = 400, obj = ResultError ''Name cannot be empty''\<rparr>, example_world)"
  by (simp add: UsersHandler_post_def eval_defs)

text \<open>
  C9, amended. For every non-empty string of blanks, \<open>_validate_name\<close> returns the
  string as valid, the emptiness check coming before the removal of the blanks; Create
  with a valid key and that string as its \<open>name\<close> argument answers 400 "Name cannot be
  empty" and leaves the world as it was, since \<open>get_argument\<close> strips the argument.
\<close>

theorem blank_name_valid_but_never_stored:
  assumes "s \<noteq> []" and "set s \<subseteq> {32}"
  shows "validate_name env (PyStr s) = Inr s
       \<and> (validate_communication_key env (headers_get req ''Com-X-Key'') = None
            \<and> arguments req ''name'' \<noteq> [] \<and> last (arguments req ''name'') = s
          \<longrightarrow> UsersHandler_post env req w =
                (Inr \<lparr>status_code = 400, obj = ResultError ''Name cannot be empty''\<rparr>, w))"
proof -
  have "replace_spaces s = []"
    using assms(2) by (auto simp: replace_spaces_def filter_empty_conv)
  then have v: "validate_name env (PyStr s) = Inr s"
    using assms(1) by (simp add: validate_name_def re_search_digit_or_nonword_def)
  have p: "validate_communication_key env (headers_get req ''Com-X-Key'') = None
            \<and> arguments req ''name'' \<noteq> [] \<and> last (arguments req ''name'') = s
          \<longrightarrow> UsersHandler_post env req w =
                (Inr \<lparr>status_code = 400, obj = ResultError ''Name cannot be empty''\<rparr>, w)"
    using strip_blanks [OF assms(2)]
    by (auto simp: UsersHandler_post_def get_argument_present validate_name_def write_json_def)
  from v p show ?thesis by blast
qed

theorem blank_name_valid_but_never_stored_witness:
  "lit ''   '' \<noteq> [] \<and> set (lit ''   '') \<subseteq> {32}
   \<and> validate_name example_env (PyStr (lit ''   '')) = Inr (lit ''   '')
   \<and> UsersHandler_post example_env
        (example_request (Some (lit ''s3cret'')) [(''name'', lit ''   '')]) example_world_created =
       (Inr \<lparr>status_code = 400, obj = ResultError ''Name cannot be empty''\<rparr>, example_world_created)"
proof -
  have a: "lit ''   '' \<noteq> []" and b: "set (lit ''   '') \<subseteq> {32}"
    by (simp_all add: lit_def)
  have l: "arguments (example_request (Some (lit ''s3cret'')) [(''name'', lit ''   '')]) ''name'' \<noteq> []
      \<and> last (arguments (example_request (Some (lit ''s3cret'')) [(''name'', lit ''   '')]) ''name'') = lit ''   ''"
    by (simp add: example_request_def)
  show ?thesis
    using a b l example_key_valid [of "[(''name'', lit ''   '')]"]
      blank_name_valid_but_never_stored [OF a b, of example_env
        "example_request (Some (lit ''s3cret'')) [(''name'', lit ''   '')]" example_world_created]
    by simp
qed

section \<open>List\<close>





section \<open>GetById\<close>

text \<open>
  C6, as the claim states it, fails on a connection whose transaction has failed: after
  the List request with \<open>page_size=-1\<close> has been refused, a GetById request with a
  valid key for the id 1, which the table holds, raises \<open>InFailedSqlTransaction\<close>
  and answers neither 200 nor 404.
\<close>

theorem get_by_id_raises_on_failed_connection:
  "UsersHandler_get example_env
     (example_request (Some (lit ''s3cret'')) [(''page_size'', lit ''-1'')]) example_world_created =
     (Inl (DatabaseError InvalidRowCountInLimitClause), example_world_failed)
   \<and> py_int example_env (PyStr (lit ''1'')) = Some 1
   \<and> find (\<lambda>r. uid r = 1) (users (db example_world_failed)) = Some jane
   \<and> UserDetailHandler_get example_env (example_request (Some (lit ''s3cret'')) []) (lit ''1'')
        example_world_failed =
       (Inl (DatabaseError InFailedSqlTransaction),
        example_world_failed\<lparr>db := sent (SelectUserById 1) (db example_world_failed)\<rparr>)"
  by (simp add: UsersHandler_get_def UserDetailHandler_get_def eval_defs)

text \<open>
  C6, amended. For a GetById request with a valid key whose path id coerces to the
  integer \<open>n\<close>: when \<open>n\<close> is 0 the answer is 400 "User ID cannot be 0", with no
  statement sent; when \<open>n\<close> is not 0 and the transaction of the connection has not
  failed, the answer is 404 \<open>{"result": False, "error": "User is not found"}\<close> if no
  row has the id \<open>n\<close>, and 200 with the row if one has; when \<open>n\<close> is not 0 and the
  transaction has failed, the handler raises \<open>InFailedSqlTransaction\<close>.
\<close>

theorem get_by_id_outcomes:
  assumes key: "validate_communication_key env (headers_get req ''Com-X-Key'') = None"
      and path: "py_int env (PyStr user_id) = Some n"
  shows "(n = 0 \<longrightarrow>
            UserDetailHandler_get env req user_id w =
              (Inr \<lparr>status_code = 400, obj = ResultError ''User ID cannot be 0''\<rparr>, w))
       \<and> (n \<noteq> 0 \<and> \<not> failed (db w) \<and> (\<forall>r \<in> set (users (db w)). uid r \<noteq> n) \<longrightarrow>
            UserDetailHandler_get env req user_id w =
              (Inr \<lparr>status_code = 404, obj = ResultError ''User is not found''\<rparr>,
               w\<lparr>db := sent (SelectUserById n) (db w)\<rparr>))
       \<and> (\<forall>u. n \<noteq> 0 \<and> \<not> failed (db w) \<and> find (\<lambda>r. uid r = n) (users (db w)) = Some u \<longrightarrow>
            UserDetailHandler_get env req user_id w =
              (Inr \<lparr>status_code = 200, obj = ResultUser u\<rparr>,
               w\<lparr>db := sent (SelectUserById n) (db w)\<rparr>))
       \<and> (n \<noteq> 0 \<and> failed (db w) \<longrightarrow>
            UserDetailHandler_get env req user_id w =
              (Inl (DatabaseError InFailedSqlTransaction),
               w\<lparr>db := sent (SelectUserById n) (db w)\<rparr>))"
proof -
  have down: "n \<noteq> 0 \<and> failed (db w) \<longrightarrow>
            UserDetailHandler_get env req user_id w =
              (Inl (DatabaseError InFailedSqlTransaction),
               w\<lparr>db := sent (SelectUserById n) (db w)\<rparr>)"
    using key path
    by (simp add: UserDetailHandler_get_def validate_user_id_def execute_select_by_id_def
        sent_def Let_def)
  have zero: "n = 0 \<longrightarrow>
            UserDetailHandler_get env req user_id w =
              (Inr \<lparr>status_code = 400, obj = ResultError ''User ID cannot be 0''\<rparr>, w)"
    using key path by (simp add: UserDetailHandler_get_def validate_user_id_def write_json_def)
  have none: "n \<noteq> 0 \<and> \<not> failed (db w) \<and> (\<forall>r \<in> set (users (db w)). uid r \<noteq> n) \<longrightarrow>
            UserDetailHandler_get env req user_id w =
              (Inr \<lparr>status_code = 404, obj = ResultError ''User is not found''\<rparr>,
               w\<lparr>db := sent (SelectUserById n) (db w)\<rparr>)"
  proof (intro impI, elim conjE)
    assume nz: "n \<noteq> 0" and ok: "\<not> failed (db w)" and no: "\<forall>r \<in> set (users (db w)). uid r \<noteq> n"
    have "find (\<lambda>r. uid r = n) (users (db w)) = None"
      using no by (simp add: find_None_iff)
    then have "execute_select_by_id (db w) n = (Inr None, sent (SelectUserById n) (db w))"
      using ok by (simp add: execute_select_by_id_alive)
    then show "UserDetailHandler_get env req user_id w =
              (Inr \<lparr>status_code = 404, obj = ResultError ''User is not found''\<rparr>,
               w\<lparr>db := sent (SelectUserById n) (db w)\<rparr>)"
      using key path nz by (simp add: UserDetailHandler_get_def validate_user_id_def write_json_def)
  qed
  have some: "\<forall>u. n \<noteq> 0 \<and> \<not> failed (db w) \<and> find (\<lambda>r. uid r = n) (users (db w)) = Some u \<longrightarrow>
            UserDetailHandler_get env req user_id w =
              (Inr \<lparr>status_code = 200, obj = ResultUser u\<rparr>,
               w\<lparr>db := sent (SelectUserById n) (db w)\<rparr>)"
  proof (intro allI impI, elim conjE)
    fix u
    assume nz: "n \<noteq> 0" and ok: "\<not> failed (db w)"
       and f: "find (\<lambda>r. uid r = n) (users (db w)) = Some u"
    have "execute_select_by_id (db w) n = (Inr (Some u), sent (SelectUserById n) (db w))"
      using ok f by (simp add: execute_select_by_id_alive)
    then show "UserDetailHandler_get env req user_id w =
              (Inr \<lparr>status_code = 200, obj = ResultUser u\<rparr>,
               w\<lparr>db := sent (SelectUserById n) (db w)\<rparr>)"
      using key path nz by (simp add: UserDetailHandler_get_def validate_user_id_def write_json_def)
  qed
  from zero none some down show ?thesis by blast
qed

theorem get_by_id_outcomes_witness:
  "py_int example_env (PyStr (lit ''00'')) = Some 0
   \<and> UserDetailHandler_get example_env (example_request (Some (lit ''s3cret'')) []) (lit ''00'')
        example_world_created =
       (Inr \<lparr>status_code = 400, obj = ResultError ''User ID cannot be 0''\<rparr>, example_world_created)
   \<and> py_int example_env (PyStr (lit ''7'')) = Some 7
   \<and> UserDetailHandler_get example_env (example_request (Some (lit ''s3cret'')) []) (lit ''7'')
        example_world_created =
       (Inr \<lparr>status_code = 404, obj = ResultError ''User is not found''\<rparr>,
        example_world_created\<lparr>db := sent (SelectUserById 7) (db example_world_created)\<rparr>)
   \<and> py_int example_env (PyStr (lit ''1'')) = Some 1
   \<and> UserDetailHandler_get example_env (example_request (Some (lit ''s3cret'')) []) (lit ''1'')
        example_world_created =
       (Inr \<lparr>status_code = 200, obj = ResultUser jane\<rparr>,
        example_world_created\<lparr>db := sent (SelectUserById 1) (db example_world_created)\<rparr>)"
proof -
  have p0: "py_int example_env (PyStr (lit ''00'')) = Some 0"
    and p7: "py_int example_env (PyStr (lit ''7'')) = Some 7"
    and p1: "py_int example_env (PyStr (lit ''1'')) = Some 1"
    by (simp_all add: eval_defs)
  have w: "\<not> failed (db example_world_created)" "users (db example_world_created) = [jane]" "uid jane = 1"
    by (simp_all add: example_world_created_def jane_def)
  show ?thesis
    using p0 p7 p1
      get_by_id_outcomes [OF example_key_valid p0, of "[]" example_world_created]
      get_by_id_outcomes [OF example_key_valid p7, of "[]" example_world_created]
      get_by_id_outcomes [OF example_key_valid p1, of "[]" example_world_created]
    by (simp add: w)
qed

section \<open>Create, then GetById\<close>

text \<open>
  The id that Create returns, written in decimal, is a path that \<open>int\<close> reads back.
\<close>

lemma digits_of_nonempty: "digits_of n \<noteq> []"
  by (subst digits_of.simps) simp

lemma digits_of_digit: "c \<in> set (digits_of n) \<Longrightarrow> ascii_digit c"
proof (induction n arbitrary: c rule: digits_of.induct)
  case (1 n)
  show ?case
  proof (cases "n < 10")
    case True
    with "1.prems" show ?thesis
      by (subst (asm) digits_of.simps) (simp add: ascii_digit_def)
  next
    case False
    have "n mod 10 < 10" by simp
    then have "ascii_digit (48 + n mod 10)"
      unfolding ascii_digit_def by linarith
    with False "1.prems" "1.IH" show ?thesis
      by (subst (asm) digits_of.simps) auto
  qed
qed

lemma digits_value_snoc: "digits_value (ds @ [d]) = 10 * digits_value ds + (d - 48)"
  by (simp add: digits_value_def)

lemma digits_value_digits_of: "digits_value (digits_of n) = n"
proof (induction n rule: digits_of.induct)
  case (1 n)
  show ?case
  proof (cases "n < 10")
    case True
    then show ?thesis
      by (subst digits_of.simps) (simp add: digits_value_def)
  next
    case False
    with "1.IH" show ?thesis
      by (subst digits_of.simps) (simp add: digits_value_snoc)
  qed
qed

lemma length_digits_of: "n < 10 ^ k \<Longrightarrow> 0 < k \<Longrightarrow> length (digits_of n) \<le> k"
proof (induction n arbitrary: k rule: digits_of.induct)
  case (1 n)
  show ?case
  proof (cases "n < 10")
    case True
    with "1.prems" show ?thesis
      by (subst digits_of.simps) simp
  next
    case False
    obtain j where k: "k = Suc j"
      using "1.prems"(2) by (cases k) auto
    have j: "0 < j"
      using False "1.prems"(1) k by (cases j) auto
    have "n div 10 < 10 ^ j"
      using "1.prems"(1) k by (simp add: less_mult_imp_div_less mult.commute)
    then have "length (digits_of (n div 10)) \<le> j"
      using "1.IH" [OF False _ j] by simp
    with False k show ?thesis
      by (subst digits_of.simps) simp
  qed
qed

lemma underscores_ok_digits:
  "ds \<noteq> [] \<Longrightarrow> 95 \<notin> set ds \<Longrightarrow> underscores_ok ds"
  by (induction ds rule: underscores_ok.induct) auto

lemma long_from_string_digits:
  assumes ne: "ds \<noteq> []" and dig: "\<forall>c \<in> set ds. ascii_digit c" and len: "length ds \<le> 640"
  shows "long_from_string m ds = Some (int (digits_value ds))"
proof -
  have h: "ascii_digit (hd ds)"
    using ne dig by (cases ds) auto
  have sp: "dropWhile ascii_isspace ds = ds"
    using ne h by (cases ds) (auto simp: ascii_isspace_def ascii_digit_def)
  have sg: "hd ds \<noteq> 43 \<and> hd ds \<noteq> 45 \<and> hd ds \<noteq> 95"
    using h by (auto simp: ascii_digit_def)
  have tk: "takeWhile (\<lambda>c. ascii_digit c \<or> c = 95) ds = ds"
    using dig by (simp add: takeWhile_eq_all_conv)
  have dr: "dropWhile (\<lambda>c. ascii_digit c \<or> c = 95) ds = []"
    using dig by simp
  have fl: "filter ascii_digit ds = ds"
    using dig by simp
  have "95 \<notin> set ds"
    using dig by (auto simp: ascii_digit_def)
  then have us: "underscores_ok ds"
    using ne by (rule underscores_ok_digits [rotated])
  show ?thesis
    using ne sg us len by (simp add: long_from_string_def sp tk dr fl Let_def)
qed

lemma py_int_digits_of:
  assumes "n < 10 ^ 640"
  shows "py_int env (PyStr (digits_of n)) = Some (int n)"
proof -
  have a: "\<forall>c \<in> set (digits_of n). ascii_digit c"
    using digits_of_digit by blast
  then have "map (to_ascii (unicode env)) (digits_of n) = digits_of n"
    by (auto simp: to_ascii_def ascii_digit_def intro!: map_idI)
  moreover have "length (digits_of n) \<le> 640"
    using length_digits_of [OF assms] by simp
  ultimately show ?thesis
    using long_from_string_digits [OF digits_of_nonempty a] by (simp add: digits_value_digits_of)
qed

lemma created_row:
  assumes "UsersHandler_post env req w = (Inr \<lparr>status_code = 200, obj = ResultUser u\<rparr>, w')"
  shows "find (\<lambda>r. uid r = uid u) (users (db w')) = Some u"
    and "\<not> failed (db w')"
    and "0 < uid u"
    and "uid u \<le> int int4_max"
proof -
  obtain c where ins: "execute_insert (db w) (name u) (created_at u) (updated_at u) = (Inr (Some (uid u)), c)"
    and w': "w' = w\<lparr>clock_reads := Suc (clock_reads w), db := commit c\<rparr>"
    using post_200 [OF assms] by blast
  have i: "uid u = int (Suc (users_id_seq (db w)))"
    using execute_insert_row(1) [OF ins] by simp
  have fresh: "uid u \<notin> set (map uid (users (db w)))"
    using execute_insert_row(3) [OF ins] i by simp
  have rows: "users c = users (db w) @ [u]"
    using execute_insert_row(4) [OF ins] i by simp
  show "find (\<lambda>r. uid r = uid u) (users (db w')) = Some u"
    using find_appended_row [OF fresh] rows by (simp add: w' commit_def sent_def)
  show "\<not> failed (db w')"
    by (simp add: w' commit_def)
  show "0 < uid u"
    using i by simp
  have "users_id_seq (db w) < int4_max"
    using ins by (auto simp: execute_insert_def sent_def Let_def split: if_splits)
  then show "uid u \<le> int int4_max"
    using i by simp
qed

lemma created_id_in_decimal:
  assumes "UsersHandler_post env req w = (Inr \<lparr>status_code = 200, obj = ResultUser u\<rparr>, w')"
  shows "py_int env' (PyStr (str_of_int (uid u))) = Some (uid u)"
proof -
  have pos: "0 < uid u" and le: "uid u \<le> int int4_max"
    using created_row(3,4) [OF assms] by simp_all
  have "nat (uid u) \<le> 2147483647"
    using le by (simp add: int4_max_def)
  also have "\<dots> < (10::nat) ^ 640"
    by simp
  finally have "py_int env' (PyStr (digits_of (nat (uid u)))) = Some (int (nat (uid u)))"
    by (rule py_int_digits_of)
  then show ?thesis
    using pos by (simp add: str_of_int_def)
qed

text \<open>
  No handler removes or changes a row, and a request that is answered leaves a connection
  that takes statements as it is.
\<close>

lemma execute_insert_keeps_rows:
  "execute_insert c0 nm ca ua = (res, c) \<Longrightarrow> \<exists>vs. users c = users c0 @ vs"
  using execute_insert_users [of c0 nm ca ua] by simp

lemma execute_select_page_keeps_rows:
  "execute_select_page c0 limit offset = (res, c) \<Longrightarrow> users c = users c0"
  by (auto simp: execute_select_page_def sent_def abort_def Let_def split: if_splits)

lemma execute_select_by_id_keeps_rows:
  "execute_select_by_id c0 i = (res, c) \<Longrightarrow> users c = users c0"
  by (auto simp: execute_select_by_id_def sent_def Let_def split: if_splits)

lemma post_users:
  "\<exists>vs. users (db (snd (UsersHandler_post env req w))) = users (db w) @ vs"
  by (auto simp: UsersHandler_post_def time_now_us_def Let_def commit_def sent_def
      split: option.splits sum.splits prod.splits dest: execute_insert_keeps_rows)

lemma get_users:
  "users (db (snd (UsersHandler_get env req w))) = users (db w)"
  by (auto simp: UsersHandler_get_def Let_def
      split: option.splits sum.splits prod.splits dest: execute_select_page_keeps_rows)

lemma detail_users:
  "users (db (snd (UserDetailHandler_get env req user_id w))) = users (db w)"
  by (auto simp: UserDetailHandler_get_def Let_def
      split: option.splits sum.splits prod.splits dest: execute_select_by_id_keeps_rows)

lemma handle_users:
  "\<exists>vs. users (db (snd (handle env c w))) = users (db w) @ vs"
  by (cases c) (simp_all add: post_users get_users detail_users)

lemma serve_users:
  "\<exists>vs. users (db (serve env calls w)) = users (db w) @ vs"
proof (induction calls arbitrary: w)
  case Nil
  show ?case by (simp add: serve_def)
next
  case (Cons c calls)
  obtain vs where a: "users (db (snd (handle env c w))) = users (db w) @ vs"
    using handle_users by blast
  obtain ws where b: "users (db (serve env calls (snd (handle env c w)))) =
                        users (db (snd (handle env c w))) @ ws"
    using Cons.IH by blast
  have "serve env (c # calls) w = serve env calls (snd (handle env c w))"
    by (simp add: serve_def)
  with a b show ?case by simp
qed

lemma answered_keeps_connection:
  assumes "handle env c w = (Inr r, w')" and "\<not> failed (db w)"
  shows "\<not> failed (db w')"
proof (cases c)
  case (Create req)
  with assms show ?thesis
    by (auto simp: UsersHandler_post_def time_now_us_def Let_def commit_def
        split: option.splits sum.splits prod.splits)
next
  case (List req)
  with assms show ?thesis
    by (auto simp: UsersHandler_get_def Let_def execute_select_page_def sent_def
        split: option.splits sum.splits prod.splits if_splits)
next
  case (GetById req user_id)
  with assms show ?thesis
    by (auto simp: UserDetailHandler_get_def Let_def execute_select_by_id_def sent_def
        split: option.splits sum.splits prod.splits if_splits)
qed

lemma get_by_id_finds_created:
  assumes created: "UsersHandler_post env req w = (Inr \<lparr>status_code = 200, obj = ResultUser u\<rparr>, w')"
      and later: "users (db w'') = users (db w') @ vs"
      and alive: "\<not> failed (db w'')"
      and key: "validate_communication_key env' (headers_get req' ''Com-X-Key'') = None"
      and path: "py_int env' (PyStr user_id) = Some (uid u)"
  shows "UserDetailHandler_get env' req' user_id w'' =
           (Inr \<lparr>status_code = 200, obj = ResultUser u\<rparr>,
            w''\<lparr>db := sent (SelectUserById (uid u)) (db w'')\<rparr>)"
proof -
  have f: "find (\<lambda>r. uid r = uid u) (users (db w'')) = Some u"
    using find_append_found [OF created_row(1) [OF created]] later by simp
  have v: "validate_user_id env' (PyStr user_id) = Inr (uid u)"
    using path created_row(3) [OF created] by (simp add: validate_user_id_def)
  have sel: "execute_select_by_id (db w'') (uid u) =
               (Inr (Some u), sent (SelectUserById (uid u)) (db w''))"
    using f alive by (simp add: execute_select_by_id_alive)
  show ?thesis
    using key v sel by (simp add: UserDetailHandler_get_def write_json_def)
qed

text \<open>
  C3, as the claim states it, fails for a GetById request that is not the next one: after
  Create has answered 200 with a user of id 1, a List request with \<open>page_size=-1\<close> is
  refused by the store, and the GetById request for the id 1 that follows raises
  \<open>InFailedSqlTransaction\<close>.
\<close>

theorem get_by_id_after_refused_list_raises:
  "UsersHandler_post example_env
     (example_request (Some (lit ''s3cret'')) [(''name'', lit ''Jane Doe'')]) example_world =
     (Inr \<lparr>status_code = 200, obj = ResultUser jane\<rparr>, example_world_created)
   \<and> uid jane = 1
   \<and> serve example_env
        [List (example_request (Some (lit ''s3cret'')) [(''page_size'', lit ''-1'')])]
        example_world_created = example_world_failed
   \<and> fst (UserDetailHandler_get example_env (example_request (Some (lit ''s3cret'')) [])
            (lit ''1'') example_world_failed) =
       Inl (DatabaseError InFailedSqlTransaction)"
  by (simp add: UsersHandler_post_def UsersHandler_get_def UserDetailHandler_get_def serve_def
      eval_defs)

text \<open>
  C3, amended. When Create has answered 200 with the user \<open>u\<close>, a GetById request
  with a valid key and a path that denotes the id of \<open>u\<close> answers 200 with the same
  user (the same id, name, \<open>created_at\<close> and \<open>updated_at\<close>) when it is served next,
  and when it is served after any further requests that have left the transaction of the
  connection not failed.
\<close>

theorem create_then_get_by_id:
  assumes created: "UsersHandler_post env req w = (Inr \<lparr>status_code = 200, obj = ResultUser u\<rparr>, w')"
      and key: "validate_communication_key env' (headers_get req' ''Com-X-Key'') = None"
      and path: "py_int env' (PyStr user_id) = Some (uid u)"
  shows "UserDetailHandler_get env' req' user_id w' =
           (Inr \<lparr>status_code = 200, obj = ResultUser u\<rparr>,
            w'\<lparr>db := sent (SelectUserById (uid u)) (db w')\<rparr>)
       \<and> (\<forall>calls. \<not> failed (db (serve env calls w')) \<longrightarrow>
            UserDetailHandler_get env' req' user_id (serve env calls w') =
              (Inr \<lparr>status_code = 200, obj = ResultUser u\<rparr>,
               (serve env calls w')\<lparr>db := sent (SelectUserById (uid u)) (db (serve env calls w'))\<rparr>))"
proof -
  have same: "users (db w') = users (db w') @ []"
    by simp
  have now: "UserDetailHandler_get env' req' user_id w' =
           (Inr \<lparr>status_code = 200, obj = ResultUser u\<rparr>,
            w'\<lparr>db := sent (SelectUserById (uid u)) (db w')\<rparr>)"
    using created same created_row(2) [OF created] key path by (rule get_by_id_finds_created)
  have later: "\<forall>calls. \<not> failed (db (serve env calls w')) \<longrightarrow>
            UserDetailHandler_get env' req' user_id (serve env calls w') =
              (Inr \<lparr>status_code = 200, obj = ResultUser u\<rparr>,
               (serve env calls w')\<lparr>db := sent (SelectUserById (uid u)) (db (serve env calls w'))\<rparr>)"
  proof (intro allI impI)
    fix calls
    assume alive: "\<not> failed (db (serve env calls w'))"
    obtain vs where rows: "users (db (serve env calls w')) = users (db w') @ vs"
      using serve_users by blast
    show "UserDetailHandler_get env' req' user_id (serve env calls w') =
              (Inr \<lparr>status_code = 200, obj = ResultUser u\<rparr>,
               (serve env calls w')\<lparr>db := sent (SelectUserById (uid u)) (db (serve env calls w'))\<rparr>)"
      using created rows alive key path by (rule get_by_id_finds_created)
  qed
  from now later show ?thesis by blast
qed

theorem create_then_get_by_id_witness:
  "UsersHandler_post example_env
     (example_request (Some (lit ''s3cret'')) [(''name'', lit ''Jane Doe'')]) example_world =
     (Inr \<lparr>status_code = 200, obj = ResultUser jane\<rparr>, example_world_created)
   \<and> py_int example_env (PyStr (lit ''1'')) = Some (uid jane)
   \<and> UserDetailHandler_get example_env (example_request (Some (lit ''s3cret'')) []) (lit ''1'')
       example_world_created =
     (Inr \<lparr>status_code = 200, obj = ResultUser jane\<rparr>,
      example_world_created\<lparr>db := sent (SelectUserById (uid jane)) (db example_world_created)\<rparr>)
   \<and> \<not> failed (db (serve example_env
        [List (example_request (Some (lit ''s3cret'')) []),
         Create (example_request (Some (lit ''s3cret'')) [(''name'', lit ''John'')])]
        example_world_created))
   \<and> fst (UserDetailHandler_get example_env (example_request (Some (lit ''s3cret'')) []) (lit ''1'')
       (serve example_env
        [List (example_request (Some (lit ''s3cret'')) []),
         Create (example_request (Some (lit ''s3cret'')) [(''name'', lit ''John'')])]
        example_world_created)) =
     Inr \<lparr>status_code = 200, obj = ResultUser jane\<rparr>"
proof -
  have created: "UsersHandler_post example_env
     (example_request (Some (lit ''s3cret'')) [(''name'', lit ''Jane Doe'')]) example_world =
     (Inr \<lparr>status_code = 200, obj = ResultUser jane\<rparr>, example_world_created)"
    by (simp add: UsersHandler_post_def eval_defs)
  have path: "py_int example_env (PyStr (lit ''1'')) = Some (uid jane)"
    by (simp add: eval_defs)
  have alive: "\<not> failed (db (serve example_env
        [List (example_request (Some (lit ''s3cret'')) []),
         Create (example_request (Some (lit ''s3cret'')) [(''name'', lit ''John'')])]
        example_world_created))"
    by (simp add: serve_def UsersHandler_post_def UsersHandler_get_def eval_defs)
  note t = create_then_get_by_id [OF created example_key_valid path, of "[]"]
  from t have later: "UserDetailHandler_get example_env (example_request (Some (lit ''s3cret'')) [])
       (lit ''1'')
       (serve example_env
        [List (example_request (Some (lit ''s3cret'')) []),
         Create (example_request (Some (lit ''s3cret'')) [(''name'', lit ''John'')])]
        example_world_created) =
     (Inr \<lparr>status_code = 200, obj = ResultUser jane\<rparr>,
      (serve example_env
        [List (example_request (Some (lit ''s3cret'')) []),
         Create (example_request (Some (lit ''s3cret'')) [(''name'', lit ''John'')])]
        example_world_created)
      \<lparr>db := sent (SelectUserById (uid jane)) (db (serve example_env
        [List (example_request (Some (lit ''s3cret'')) []),
         Create (example_request (Some (lit ''s3cret'')) [(''name'', lit ''John'')])]
        example_world_created))\<rparr>)"
    using alive by blast
  from t have now: "UserDetailHandler_get example_env (example_request (Some (lit ''s3cret'')) [])
       (lit ''1'') example_world_created =
     (Inr \<lparr>status_code = 200, obj = ResultUser jane\<rparr>,
      example_world_created\<lparr>db := sent (SelectUserById (uid jane)) (db example_world_created)\<rparr>)"
    by (rule conjunct1)
  show ?thesis
    using created path now alive later by simp
qed

end
